theory Spec2Isabelle
  imports Complex_Main "HOL-Library.Word"
begin

section \<open>The Vector2 structure of geom/Vector2.hpp\<close>

text \<open>
  \<^verbatim>\<open>template <typename Scalar> struct Vector2 { Scalar x; Scalar y; }\<close>
  The template parameter \<open>Scalar\<close> is the type variable of the record. The unsigned
  kinds are words (\<open>std::uint32_t\<close> is \<open>32 word\<close>, \<open>std::uint64_t\<close> is
  \<open>64 word\<close>): their \<open>+\<close>, \<open>-\<close>, \<open>*\<close> and unary \<open>-\<close> wrap modulo \<open>2 ^ w\<close> and
  their order is the unsigned one, as in C++. A signed kind is read at type \<open>int\<close>: overflow
  of a signed kind is undefined in C++, so its arithmetic is defined exactly where the
  result stays in range, and there it is the arithmetic of \<open>int\<close>.
\<close>

record 'a Vector2 =
  x :: 'a
  y :: 'a

type_synonym Vec2u = "32 word Vector2"
type_synonym Vec2ul = "64 word Vector2"

text \<open>
  Objects that are mutated through \<open>this\<close> live in a store: an address designates an
  object, a reference is an address. Temporaries and by-value results are plain values.
\<close>

type_synonym addr = nat
type_synonym 'a heap = "addr \<Rightarrow> 'a Vector2"

text \<open>
  What can go wrong: a \<open>static_assert\<close> that fails when a template is instantiated
  (the program does not compile; the message is kept), and an operation of the language
  whose behaviour is undefined for its operands.
\<close>

datatype error = StaticAssertion string | UndefinedBehaviour

subsection \<open>Scalar kinds and their promotion\<close>

text \<open>
  The scalar kinds of the typedefs \<open>Vec2i\<close>, \<open>Vec2u\<close>, \<open>Vec2l\<close>, \<open>Vec2ul\<close>,
  \<open>Vec2f\<close> and \<open>Vec2d\<close>.
\<close>

datatype int_kind = Int32 | UInt32 | Int64 | UInt64

datatype kind = Integral int_kind | Float | Double

text \<open>\<open>std::is_floating_point<T>::value\<close>\<close>

fun is_floating_point :: "kind \<Rightarrow> bool" where
  "is_floating_point (Integral k) = False"
| "is_floating_point Float = True"
| "is_floating_point Double = True"

fun width :: "int_kind \<Rightarrow> nat" where
  "width Int32 = 32"
| "width UInt32 = 32"
| "width Int64 = 64"
| "width UInt64 = 64"

fun is_unsigned :: "int_kind \<Rightarrow> bool" where
  "is_unsigned Int32 = False"
| "is_unsigned UInt32 = True"
| "is_unsigned Int64 = False"
| "is_unsigned UInt64 = True"

text \<open>
  \<open>std::common_type<A,B>::type\<close> on these kinds, that is the usual arithmetic
  conversions: \<open>double\<close> wins, then \<open>float\<close>; of two integer kinds the wider one
  wins, and at equal width the unsigned one.
\<close>

fun common_type :: "kind \<Rightarrow> kind \<Rightarrow> kind" where
  "common_type Double b = Double"
| "common_type a Double = Double"
| "common_type Float b = Float"
| "common_type a Float = Float"
| "common_type (Integral a) (Integral b) =
     (if width a = width b then (if is_unsigned a then Integral a else Integral b)
      else if width a < width b then Integral b
      else Integral a)"

text \<open>
  Modelled from the spec: \<open>VectorOpResult\<close> is declared in \<open>VectorTraits.hpp\<close>, which
  is not among the sources. The spec describes it as the mapping "from a pair of scalar
  kinds to a single result scalar kind, following the host language's usual numeric
  common-type promotion (e.g., mixing a 32-bit integer and a double yields double)".
\<close>

definition VectorOpResult :: "kind \<Rightarrow> kind \<Rightarrow> kind" where
  "VectorOpResult rhs lhs = common_type rhs lhs"

subsection \<open>Floating values and their conversion to an integer kind\<close>

text \<open>
  A value of kind \<open>float\<close> or \<open>double\<close> is an infinity, a NaN or finite; a finite
  one is the real number it denotes. Converting it to an integer kind
  (\<open>static_cast<K>(d)\<close>, or the implicit conversion of an initialiser) discards the
  fractional part; the behaviour is undefined when the truncated value is not a value of
  the integer kind, and for infinities and NaN. The result is given as the integer it
  denotes.
\<close>

datatype fp = Finite real | PosInf | NegInf | NaN

definition trunc :: "real \<Rightarrow> int" where
  "trunc r = (if r < 0 then \<lceil>r\<rceil> else \<lfloor>r\<rfloor>)"

fun int_min :: "int_kind \<Rightarrow> int" where
  "int_min Int32 = - (2 ^ 31)"
| "int_min UInt32 = 0"
| "int_min Int64 = - (2 ^ 63)"
| "int_min UInt64 = 0"

fun int_max :: "int_kind \<Rightarrow> int" where
  "int_max Int32 = 2 ^ 31 - 1"
| "int_max UInt32 = 2 ^ 32 - 1"
| "int_max Int64 = 2 ^ 63 - 1"
| "int_max UInt64 = 2 ^ 64 - 1"

fun static_cast_integral :: "int_kind \<Rightarrow> fp \<Rightarrow> error + int" where
  "static_cast_integral k (Finite r) =
     (if int_min k \<le> trunc r \<and> trunc r \<le> int_max k then Inr (trunc r)
      else Inl UndefinedBehaviour)"
| "static_cast_integral k PosInf = Inl UndefinedBehaviour"
| "static_cast_integral k NegInf = Inl UndefinedBehaviour"
| "static_cast_integral k NaN = Inl UndefinedBehaviour"

text \<open>
  The \<open>double\<close> values of the literals \<open>1.1\<close>, \<open>2.2\<close> and \<open>2.7\<close>: multiples of
  \<open>2 ^ - 51\<close>, \<open>2 ^ - 50\<close> and \<open>2 ^ - 50\<close> within half a unit in the last place
  (\<open>2 ^ - 53\<close>, \<open>2 ^ - 52\<close> and \<open>2 ^ - 52\<close>) of the decimal value.
\<close>

definition double_1_1 :: real where
  "double_1_1 = 2476979795053773 / 2251799813685248"

definition double_2_2 :: real where
  "double_2_2 = 2476979795053773 / 1125899906842624"

definition double_2_7 :: real where
  "double_2_7 = 3039929748475085 / 1125899906842624"

text \<open>
  The conversion of a 32-bit integer to \<open>double\<close> is exact: every such integer is a
  \<open>double\<close>.
\<close>

definition double_of_int32 :: "int \<Rightarrow> error + fp" where
  "double_of_int32 n = Inr (Finite (real_of_int n))"

subsection \<open>Constructors and assignment\<close>

text \<open>\<^verbatim>\<open>constexpr Vector2() : x(0), y(0) { }\<close>\<close>

definition Vector2_default :: "('a::zero) Vector2" where
  "Vector2_default = \<lparr>x = 0, y = 0\<rparr>"

text \<open>\<^verbatim>\<open>constexpr Vector2(const Scalar &x, const Scalar &y) : x(x), y(y) { }\<close>\<close>

definition Vector2_of :: "'a \<Rightarrow> 'a \<Rightarrow> 'a Vector2" where
  "Vector2_of a b = \<lparr>x = a, y = b\<rparr>"

text \<open>
  The store of a test: the vectors it declares, in the order of their declaration, are the
  objects at the addresses \<open>0\<close>, \<open>1\<close>, ...; every other address holds a
  default-constructed vector.
\<close>

definition store_of :: "('a::zero) Vector2 list \<Rightarrow> 'a heap" where
  "store_of vs a = (if a < length vs then vs ! a else Vector2_default)"

text \<open>\<^verbatim>\<open>constexpr Vector2(const Vector2<Scalar> &source) : x(source.x), y(source.y) { }\<close>\<close>

definition Vector2_copy :: "'a Vector2 \<Rightarrow> 'a Vector2" where
  "Vector2_copy source = \<lparr>x = x source, y = y source\<rparr>"

text \<open>
  \<^verbatim>\<open>template <typename Other> constexpr Vector2(const Vector2<Other> &source)
  : x(source.x), y(source.y) { }\<close>
  Each component is converted from \<open>Other\<close> to \<open>Scalar\<close> by the implicit conversion
  of the language, \<open>conv\<close>, which can be undefined.
\<close>

definition Vector2_from :: "('o \<Rightarrow> error + 'a) \<Rightarrow> 'o Vector2 \<Rightarrow> error + 'a Vector2" where
  "Vector2_from conv source =
     (case conv (x source) of
        Inl e \<Rightarrow> Inl e
      | Inr a \<Rightarrow> (case conv (y source) of
                    Inl e \<Rightarrow> Inl e
                  | Inr b \<Rightarrow> Inr \<lparr>x = a, y = b\<rparr>))"

text \<open>
  \<^verbatim>\<open>Vector2<Scalar> & operator=(const Vector2<Scalar> &source)
  { x = source.x; y = source.y; return *this; }\<close>
  The two stores happen in the order of the source; the result is the reference \<open>*this\<close>
  and the store after the call. \<open>source\<close> is a reference: it is an address too, and
  is read again after the first store, so that \<open>v = v\<close> is covered as the code runs it.
\<close>

definition operator_assign :: "addr \<Rightarrow> addr \<Rightarrow> 'a heap \<Rightarrow> addr \<times> 'a heap" where
  "operator_assign this source h =
     (let h1 = h(this := (h this)\<lparr>x := x (h source)\<rparr>);
          h2 = h1(this := (h1 this)\<lparr>y := y (h1 source)\<rparr>)
      in (this, h2))"

text \<open>
  The same assignment from a temporary (the value of an expression): a temporary is no
  object of the store, so it cannot alias \<open>*this\<close>.
\<close>

definition operator_assign_temp :: "addr \<Rightarrow> 'a Vector2 \<Rightarrow> 'a heap \<Rightarrow> addr \<times> 'a heap" where
  "operator_assign_temp this source h =
     (let h1 = h(this := (h this)\<lparr>x := x source\<rparr>);
          h2 = h1(this := (h1 this)\<lparr>y := y source\<rparr>)
      in (this, h2))"

text \<open>
  \<^verbatim>\<open>template <typename Other> Vector2<Scalar> & operator=(const Vector2<Other> &source)
  { x = static_cast<Scalar>(source.x); y = static_cast<Scalar>(source.y); return *this; }\<close>
  \<open>source\<close> has another type than \<open>*this\<close>, so it is no object of this store.
\<close>

definition operator_assign_from ::
  "('o \<Rightarrow> error + 'a) \<Rightarrow> addr \<Rightarrow> 'o Vector2 \<Rightarrow> 'a heap \<Rightarrow> error + (addr \<times> 'a heap)" where
  "operator_assign_from conv this source h =
     (case conv (x source) of
        Inl e \<Rightarrow> Inl e
      | Inr a \<Rightarrow>
          (let h1 = h(this := (h this)\<lparr>x := a\<rparr>)
           in case conv (y source) of
                Inl e \<Rightarrow> Inl e
              | Inr b \<Rightarrow> Inr (this, h1(this := (h1 this)\<lparr>y := b\<rparr>))))"

subsection \<open>Unary negation\<close>

text \<open>
  \<^verbatim>\<open>Vector2<Scalar> operator-() { return Vector2<Scalar>(-x, -y); }\<close>
  The member function is not declared \<open>const\<close>: it receives \<open>this\<close> and the store,
  and returns its by-value result together with the store it leaves.
\<close>

definition operator_neg :: "addr \<Rightarrow> ('a::uminus) heap \<Rightarrow> 'a Vector2 \<times> 'a heap" where
  "operator_neg this h = (Vector2_of (- x (h this)) (- y (h this)), h)"

subsection \<open>Comparisons\<close>

text \<open>
  \<^verbatim>\<open>bool operator==(lhs, rhs) { return (lhs.x == rhs.x && lhs.y == rhs.y); }\<close> and its
  five siblings, each componentwise.
\<close>

definition operator_eq :: "'a Vector2 \<Rightarrow> 'a Vector2 \<Rightarrow> bool" where
  "operator_eq lhs rhs = (x lhs = x rhs \<and> y lhs = y rhs)"

definition operator_ne :: "'a Vector2 \<Rightarrow> 'a Vector2 \<Rightarrow> bool" where
  "operator_ne lhs rhs = (\<not> operator_eq lhs rhs)"

definition operator_gt :: "('a::ord) Vector2 \<Rightarrow> 'a Vector2 \<Rightarrow> bool" where
  "operator_gt lhs rhs = (x lhs > x rhs \<and> y lhs > y rhs)"

definition operator_ge :: "('a::ord) Vector2 \<Rightarrow> 'a Vector2 \<Rightarrow> bool" where
  "operator_ge lhs rhs = (x lhs \<ge> x rhs \<and> y lhs \<ge> y rhs)"

definition operator_lt :: "('a::ord) Vector2 \<Rightarrow> 'a Vector2 \<Rightarrow> bool" where
  "operator_lt lhs rhs = (x lhs < x rhs \<and> y lhs < y rhs)"

definition operator_le :: "('a::ord) Vector2 \<Rightarrow> 'a Vector2 \<Rightarrow> bool" where
  "operator_le lhs rhs = (x lhs \<le> x rhs \<and> y lhs \<le> y rhs)"

subsection \<open>Vector-vector arithmetic\<close>

text \<open>
  \<^verbatim>\<open>template <typename RhsType, typename LhsType,
            typename Result = typename VectorOpResult<RhsType,LhsType>::type>
  Vector2<Result> operator+(const Vector2<LhsType> &lhs, const Vector2<RhsType> &rhs)
  { return Vector2<Result>(lhs.x + rhs.x, lhs.y + rhs.y); }\<close>
  and likewise \<open>operator-\<close>, and \<open>operator*\<close> and \<open>operator/\<close> on two vectors
  (documented there as piecewise). When the two operands have the same kind, the
  operation is taken in that kind.
\<close>

definition operator_plus :: "('a::plus) Vector2 \<Rightarrow> 'a Vector2 \<Rightarrow> 'a Vector2" where
  "operator_plus lhs rhs = Vector2_of (x lhs + x rhs) (y lhs + y rhs)"

definition operator_minus :: "('a::minus) Vector2 \<Rightarrow> 'a Vector2 \<Rightarrow> 'a Vector2" where
  "operator_minus lhs rhs = Vector2_of (x lhs - x rhs) (y lhs - y rhs)"

definition operator_mul_piecewise :: "('a::times) Vector2 \<Rightarrow> 'a Vector2 \<Rightarrow> 'a Vector2" where
  "operator_mul_piecewise lhs rhs = Vector2_of (x lhs * x rhs) (y lhs * y rhs)"

text \<open>
  Division is the scalar kind's own \<open>/\<close>, given as \<open>dv\<close>: it truncates on an integer
  kind, where a zero divisor is undefined behaviour (\<open>None\<close>), and it is the IEEE
  division on a floating kind. HOL's \<open>div\<close> would turn a zero divisor into \<open>0\<close>.
\<close>

definition unsigned_div :: "'w::len word \<Rightarrow> 'w word \<Rightarrow> 'w word option" where
  "unsigned_div a b = (if b = 0 then None else Some (a div b))"

definition operator_div_piecewise ::
  "('a \<Rightarrow> 'a \<Rightarrow> 'a option) \<Rightarrow> 'a Vector2 \<Rightarrow> 'a Vector2 \<Rightarrow> error + 'a Vector2" where
  "operator_div_piecewise dv lhs rhs =
     (case dv (x lhs) (x rhs) of
        None \<Rightarrow> Inl UndefinedBehaviour
      | Some a \<Rightarrow> (case dv (y lhs) (y rhs) of
                     None \<Rightarrow> Inl UndefinedBehaviour
                   | Some b \<Rightarrow> Inr (Vector2_of a b)))"

text \<open>
  When the kinds differ, \<open>lhs.x + rhs.x\<close> first brings both operands to their common
  kind by the usual arithmetic conversions, \<open>pl\<close> for the left kind and \<open>pr\<close> for the
  right one, and adds there.
\<close>

definition operator_plus_mixed ::
  "('l \<Rightarrow> 'c) \<Rightarrow> ('r \<Rightarrow> 'c) \<Rightarrow> 'l Vector2 \<Rightarrow> 'r Vector2 \<Rightarrow> ('c::plus) Vector2" where
  "operator_plus_mixed pl pr lhs rhs =
     Vector2_of (pl (x lhs) + pr (x rhs)) (pl (y lhs) + pr (y rhs))"

subsection \<open>Vector-scalar arithmetic and the choice of the overload\<close>

text \<open>
  The right operand of \<open>v * rhs\<close> and \<open>v / rhs\<close> has a type of its own, \<open>RhsType\<close>:
  a scalar or a vector. In the overloads below the two operands have one scalar kind,
  in which each product or quotient is taken. Operands of two kinds are brought to their
  common kind by the usual arithmetic conversions, as \<open>lhs.x * rhs\<close> does it
  (\<open>Vector2_promote\<close> and \<open>operand_promote\<close> below), and the overloads then work in
  that common kind.
\<close>

datatype 'a operand = Scalar 'a | Vector "'a Vector2"

text \<open>
  Modelled from the spec: the primary template of \<open>IsVector\<close> is declared in
  \<open>VectorTraits.hpp\<close>, which is not among the sources; for a scalar kind it is taken
  to be false, the scalar operand that the spec's scalar \<open>mul\<close>/\<open>div\<close> accepts. The
  equation for a vector is the specialisation of the source,
  \<^verbatim>\<open>template <typename T> struct IsVector<Vector2<T>> : public std::true_type { };\<close>
\<close>

fun IsVector :: "'a operand \<Rightarrow> bool" where
  "IsVector (Vector v) = True"
| "IsVector (Scalar s) = False"

text \<open>
  \<^verbatim>\<open>Vector2<Result> operator*(const Vector2<LhsType> &lhs, const RhsType &rhs) {
    static_assert(!IsVector<RhsType>(), "Multiplication not defined for the given types");
    return Vector2<Result>(lhs.x * rhs, lhs.y * rhs); }\<close>
  This is the overload instantiated at a given \<open>RhsType\<close>. With a vector for
  \<open>RhsType\<close> the assertion fails, and the instantiation has no result.
\<close>

definition operator_mul_scalar :: "('a::times) Vector2 \<Rightarrow> 'a operand \<Rightarrow> error + 'a Vector2" where
  "operator_mul_scalar lhs rhs =
     (if IsVector rhs then Inl (StaticAssertion ''Multiplication not defined for the given types'')
      else (case rhs of
              Scalar s \<Rightarrow> Inr (Vector2_of (x lhs * s) (y lhs * s))
            | Vector v \<Rightarrow> Inl (StaticAssertion ''Multiplication not defined for the given types'')))"

text \<open>
  \<^verbatim>\<open>Vector2<Result> operator*(const LhsType &lhs, const Vector2<RhsType> &rhs) {
    static_assert(!IsVector<LhsType>(), "Multiplication not defined for the given types");
    return Vector2<Result>(rhs.x * lhs, rhs.y * lhs); }\<close>
\<close>

definition operator_mul_scalar_left :: "('a::times) operand \<Rightarrow> 'a Vector2 \<Rightarrow> error + 'a Vector2" where
  "operator_mul_scalar_left lhs rhs =
     (if IsVector lhs then Inl (StaticAssertion ''Multiplication not defined for the given types'')
      else (case lhs of
              Scalar s \<Rightarrow> Inr (Vector2_of (x rhs * s) (y rhs * s))
            | Vector v \<Rightarrow> Inl (StaticAssertion ''Multiplication not defined for the given types'')))"

text \<open>
  \<^verbatim>\<open>Vector2<Result> operator/(const Vector2<LhsType> &lhs, const RhsType &rhs) {
    static_assert(!IsVector<RhsType>(), "Division not defined for the given types");
    return Vector2<Result>(lhs.x / rhs, lhs.y / rhs); }\<close>
\<close>

definition operator_div_scalar ::
  "('a \<Rightarrow> 'a \<Rightarrow> 'a option) \<Rightarrow> 'a Vector2 \<Rightarrow> 'a operand \<Rightarrow> error + 'a Vector2" where
  "operator_div_scalar dv lhs rhs =
     (if IsVector rhs then Inl (StaticAssertion ''Division not defined for the given types'')
      else (case rhs of
              Scalar s \<Rightarrow>
                (case dv (x lhs) s of
                   None \<Rightarrow> Inl UndefinedBehaviour
                 | Some a \<Rightarrow> (case dv (y lhs) s of
                                None \<Rightarrow> Inl UndefinedBehaviour
                              | Some b \<Rightarrow> Inr (Vector2_of a b)))
            | Vector v \<Rightarrow> Inl (StaticAssertion ''Division not defined for the given types'')))"

text \<open>
  The expression \<open>lhs * rhs\<close> with a \<open>Vector2\<close> on the left. For a scalar on the
  right only the overload \<open>(const Vector2<LhsType> &, const RhsType &)\<close> can be
  called. For a \<open>Vector2\<close> on the right the overload
  \<open>(const Vector2<LhsType> &, const Vector2<RhsType> &)\<close> can be called as well, and
  it is the more specialised function template of the two (its second parameter type
  \<open>Vector2<RhsType>\<close> is an instance of the other's \<open>RhsType\<close>, not the other way
  round), so overload resolution selects it and the scalar overload is not instantiated.
  The same holds for \<open>lhs / rhs\<close>.

  Modelled from the spec: that the expression compiles at all rests on the default
  template arguments \<open>VectorOpResult<...>::type\<close> of the candidates, declared in
  \<open>VectorTraits.hpp\<close>, which is not among the sources. The spec lists the piecewise
  product and quotient of two vectors among the operations of the type, and the header
  defines and documents them, so the expression is taken to compile.
\<close>

fun operator_mul :: "('a::times) Vector2 \<Rightarrow> 'a operand \<Rightarrow> error + 'a Vector2" where
  "operator_mul lhs (Vector rhs) = Inr (operator_mul_piecewise lhs rhs)"
| "operator_mul lhs (Scalar rhs) = operator_mul_scalar lhs (Scalar rhs)"

fun operator_div ::
  "('a \<Rightarrow> 'a \<Rightarrow> 'a option) \<Rightarrow> 'a Vector2 \<Rightarrow> 'a operand \<Rightarrow> error + 'a Vector2" where
  "operator_div dv lhs (Vector rhs) = operator_div_piecewise dv lhs rhs"
| "operator_div dv lhs (Scalar rhs) = operator_div_scalar dv lhs (Scalar rhs)"

subsection \<open>Compound assignment\<close>

text \<open>
  \<^verbatim>\<open>template <typename RhsType> Vector2<Scalar> & operator+=(const Vector2<RhsType> &rhs)
  { return *this = *this + rhs; }\<close>
  With \<open>RhsType = Scalar\<close> the sum has the type of \<open>*this\<close> and the copy assignment
  takes it; \<open>rhs\<close> is a reference and may be \<open>*this\<close> itself.
\<close>

definition operator_plus_assign :: "addr \<Rightarrow> addr \<Rightarrow> ('a::plus) heap \<Rightarrow> addr \<times> 'a heap" where
  "operator_plus_assign this rhs h = operator_assign_temp this (operator_plus (h this) (h rhs)) h"

text \<open>
  With another \<open>RhsType\<close> the sum has the common kind and the converting assignment
  takes it, casting each component back to \<open>Scalar\<close> with \<open>conv\<close>.
\<close>

definition operator_plus_assign_mixed ::
  "('a \<Rightarrow> 'c::plus) \<Rightarrow> ('r \<Rightarrow> 'c) \<Rightarrow> ('c \<Rightarrow> error + 'a) \<Rightarrow> addr \<Rightarrow> 'r Vector2 \<Rightarrow> 'a heap
     \<Rightarrow> error + (addr \<times> 'a heap)" where
  "operator_plus_assign_mixed pl pr conv this rhs h =
     operator_assign_from conv this (operator_plus_mixed pl pr (h this) rhs) h"

text \<open>
  \<^verbatim>\<open>template <typename RhsType> Vector2<Scalar> & operator-=(const Vector2<RhsType> &rhs)
  { return *this = *this - rhs; }\<close>
\<close>

definition operator_minus_assign :: "addr \<Rightarrow> addr \<Rightarrow> ('a::minus) heap \<Rightarrow> addr \<times> 'a heap" where
  "operator_minus_assign this rhs h = operator_assign_temp this (operator_minus (h this) (h rhs)) h"

text \<open>
  The usual arithmetic conversions, applied to the components of a vector and to an
  operand: \<open>c\<close> converts a scalar kind to the common kind of an operation.
\<close>

definition Vector2_promote :: "('a \<Rightarrow> 'c) \<Rightarrow> 'a Vector2 \<Rightarrow> 'c Vector2" where
  "Vector2_promote c v = \<lparr>x = c (x v), y = c (y v)\<rparr>"

fun operand_promote :: "('r \<Rightarrow> 'c) \<Rightarrow> 'r operand \<Rightarrow> 'c operand" where
  "operand_promote c (Scalar s) = Scalar (c s)"
| "operand_promote c (Vector v) = Vector (Vector2_promote c v)"

text \<open>
  \<^verbatim>\<open>template <typename RhsType> Vector2<Scalar> & operator*=(const RhsType &rhs)
  { return *this = *this * rhs; }\<close>
  \<open>RhsType\<close> is any type here: a scalar or a vector, of the kind of \<open>*this\<close> or of
  another one. Each product of \<open>*this * rhs\<close> is taken in the common kind of the two
  scalar kinds, to which \<open>pl\<close> (from \<open>Scalar\<close>) and \<open>pr\<close> (from the kind of the
  operand) convert; the result is a vector of that common kind, and the assignment casts
  each component back to \<open>Scalar\<close> with \<open>conv\<close>. When the operand has the kind of
  \<open>*this\<close> the conversions are identities and the copy assignment stores the product,
  which is the instance \<open>conv = Inr\<close>. The product is computed before the assignment
  stores anything, so the operand is taken by its value.
\<close>

definition operator_mul_assign ::
  "('a \<Rightarrow> 'c::times) \<Rightarrow> ('r \<Rightarrow> 'c) \<Rightarrow> ('c \<Rightarrow> error + 'a) \<Rightarrow> addr \<Rightarrow> 'r operand \<Rightarrow> 'a heap
     \<Rightarrow> error + (addr \<times> 'a heap)" where
  "operator_mul_assign pl pr conv this rhs h =
     (case operator_mul (Vector2_promote pl (h this)) (operand_promote pr rhs) of
        Inl e \<Rightarrow> Inl e
      | Inr r \<Rightarrow> operator_assign_from conv this r h)"

text \<open>
  \<^verbatim>\<open>template <typename RhsType> Vector2<Scalar> & operator/=(const RhsType &rhs)
  { return *this = *this / rhs; }\<close>
  \<open>dv\<close> is the division of the common kind.
\<close>

definition operator_div_assign ::
  "('c \<Rightarrow> 'c \<Rightarrow> 'c option) \<Rightarrow> ('a \<Rightarrow> 'c) \<Rightarrow> ('r \<Rightarrow> 'c) \<Rightarrow> ('c \<Rightarrow> error + 'a) \<Rightarrow> addr
     \<Rightarrow> 'r operand \<Rightarrow> 'a heap \<Rightarrow> error + (addr \<times> 'a heap)" where
  "operator_div_assign dv pl pr conv this rhs h =
     (case operator_div dv (Vector2_promote pl (h this)) (operand_promote pr rhs) of
        Inl e \<Rightarrow> Inl e
      | Inr r \<Rightarrow> operator_assign_from conv this r h)"

subsection \<open>Length\<close>

text \<open>
  \<^verbatim>\<open>template <typename Scalar> double length(const Vector2<Scalar> &v)
  { return std::sqrt((double)(v.x * v.x + v.y * v.y)); }\<close>
  at an unsigned kind. The products and the sum are taken in \<open>Scalar\<close>, where they wrap;
  the cast to \<open>double\<close> is applied to the sum. A \<open>double\<close> is given as the real number
  it denotes. The cast is exact for every sum below \<open>2 ^ 53\<close>, hence for every value of
  a 32-bit kind and for \<open>0\<close>; a larger sum of a 64-bit kind is rounded by the cast, which
  this definition does not show. The library's \<open>std::sqrt\<close> on \<open>double\<close> is the
  parameter \<open>std_sqrt\<close>.
\<close>

definition length_vec :: "(real \<Rightarrow> real) \<Rightarrow> 'w::len word Vector2 \<Rightarrow> real" where
  "length_vec std_sqrt v = std_sqrt (real (unat (x v * x v + y v * y v)))"

text \<open>
  The length in the words of the spec, for comparison: "non-floating scalar kinds are
  first promoted to double precision before computing length", as the comment of the
  source says too ("Any type vector which isn't a float or double vector is first
  converted to a double vector"). Both components are cast, then squared and added.
\<close>

definition length_promoted_spec :: "(real \<Rightarrow> real) \<Rightarrow> 'w::len word Vector2 \<Rightarrow> real" where
  "length_promoted_spec std_sqrt v =
     std_sqrt (real (unat (x v)) * real (unat (x v)) + real (unat (y v)) * real (unat (y v)))"

text \<open>
  The same template at any scalar kind, with the kind's own \<open>*\<close> and \<open>+\<close>;
  \<open>to_double\<close> is the cast \<open>(double)\<close> of the sum and \<open>std_sqrt\<close> the library's
  square root on \<open>double\<close>. At an unsigned kind, with the reals for the doubles, it is
  \<open>length_vec\<close>.
\<close>

definition length_template :: "('d \<Rightarrow> 'd) \<Rightarrow> ('s \<Rightarrow> 'd) \<Rightarrow> ('s::{times,plus}) Vector2 \<Rightarrow> 'd" where
  "length_template std_sqrt to_double v = std_sqrt (to_double (x v * x v + y v * y v))"

text \<open>
  \<^verbatim>\<open>inline float length(const Vector2<float> &f)
  { return std::sqrt(f.x * f.x + f.y * f.y); }\<close>
  Everything is of kind \<open>float\<close>, the square root too (\<open>sqrtf\<close>); nothing is cast.
\<close>

definition length_float :: "('f \<Rightarrow> 'f) \<Rightarrow> ('f::{times,plus}) Vector2 \<Rightarrow> 'f" where
  "length_float sqrtf f = sqrtf (x f * x f + y f * y f)"

subsection \<open>Normalisation\<close>

text \<open>
  \<^verbatim>\<open>template <typename IntegralType, typename RType = double>
  Vector2<RType> normalize(const Vector2<IntegralType> &source)
  { return source / length(source); }\<close>
  \<open>length(source)\<close> is a \<open>double\<close>: the quotient is the scalar overload of
  \<open>operator/\<close>, each component converted to \<open>double\<close> (\<open>to_double\<close>, the common
  kind of any kind and \<open>double\<close>) and divided there by \<open>dv\<close>. The vector of doubles is
  converted to \<open>Vector2<RType>\<close> on return, with \<open>to_RType\<close>; for the default
  \<open>RType = double\<close> that is a copy, \<open>to_RType = Inr\<close>.
\<close>

definition normalize_vec ::
  "('d \<Rightarrow> 'd) \<Rightarrow> ('s \<Rightarrow> 'd) \<Rightarrow> ('d \<Rightarrow> 'd \<Rightarrow> 'd option) \<Rightarrow> ('d \<Rightarrow> error + 'r)
     \<Rightarrow> ('s::{times,plus}) Vector2 \<Rightarrow> error + 'r Vector2" where
  "normalize_vec std_sqrt to_double dv to_RType source =
     (case operator_div dv (Vector2_promote to_double source)
             (Scalar (length_template std_sqrt to_double source)) of
        Inl e \<Rightarrow> Inl e
      | Inr q \<Rightarrow> Vector2_from to_RType q)"

text \<open>
  \<^verbatim>\<open>inline Vector2<float> normalize(const Vector2<float> &source)
  { return source / length(source); }\<close>
  This overload is no template, so it is the one called for a \<open>Vector2<float>\<close>; the
  length, the quotient and the result are of kind \<open>float\<close>.
\<close>

definition normalize_float ::
  "('f \<Rightarrow> 'f) \<Rightarrow> ('f \<Rightarrow> 'f \<Rightarrow> 'f option) \<Rightarrow> ('f::{times,plus}) Vector2 \<Rightarrow> error + 'f Vector2" where
  "normalize_float sqrtf dv source = operator_div dv source (Scalar (length_float sqrtf source))"

text \<open>
  The scalar kind of the result of \<open>normalize(v)\<close> for a vector of kind \<open>k\<close>, called
  without explicit template arguments: \<open>float\<close> by the overload for
  \<open>Vector2<float>\<close>, and the default \<open>RType = double\<close> of the template otherwise.
\<close>

fun normalize_Result :: "kind \<Rightarrow> kind" where
  "normalize_Result Float = Float"
| "normalize_Result (Integral k) = Double"
| "normalize_Result Double = Double"

subsection \<open>Dot product and reflection\<close>

text \<open>
  \<^verbatim>\<open>Result dot(const Vector2<LhsType> &lhs, const Vector2<RhsType> &rhs)
  { return lhs.x * rhs.x + lhs.y * rhs.y; }\<close>
\<close>

definition dot :: "('a::{times,plus}) Vector2 \<Rightarrow> 'a Vector2 \<Rightarrow> 'a" where
  "dot lhs rhs = x lhs * x rhs + y lhs * y rhs"

text \<open>
  \<^verbatim>\<open>template <typename rtype, typename ltype,
            typename Result = typename VectorOpResult<rtype,ltype>::type>
  Vector2<Result> reflect(const Vector2<ltype> &vec, const Vector2<rtype> &normal) {
    const Vector2<Result> i(vec);
    const Vector2<Result> n(normal);
    return i - ((2 * dot(i, n)) * n); }\<close>
  The kind of the result is the default template argument.
\<close>

definition reflect_Result :: "kind \<Rightarrow> kind \<Rightarrow> kind" where
  "reflect_Result rtype ltype = VectorOpResult rtype ltype"

text \<open>
  \<open>cl\<close> and \<open>cr\<close> are the conversions from \<open>ltype\<close> and from \<open>rtype\<close> to
  \<open>Result\<close>. The product \<open>(2 * dot(i, n)) * n\<close> has a scalar of kind \<open>Result\<close> on
  the left: it is the overload with the scalar on the left.
\<close>

definition reflect ::
  "('l \<Rightarrow> error + 'c) \<Rightarrow> ('r \<Rightarrow> error + 'c) \<Rightarrow> 'l Vector2 \<Rightarrow> 'r Vector2
     \<Rightarrow> error + ('c::{minus,times,numeral}) Vector2" where
  "reflect cl cr vec normal =
     (case Vector2_from cl vec of
        Inl e \<Rightarrow> Inl e
      | Inr i \<Rightarrow>
          (case Vector2_from cr normal of
             Inl e \<Rightarrow> Inl e
           | Inr n \<Rightarrow>
               (case operator_mul_scalar_left (Scalar (2 * dot i n)) n of
                  Inl e \<Rightarrow> Inl e
                | Inr m \<Rightarrow> Inr (operator_minus i m))))"

subsection \<open>Refraction\<close>


text \<open>
  The operands of the body have up to seven kinds, and the language converts between them
  where an operator meets two kinds. The conversions are parameters:
  \<^item> \<open>dot(n, i)\<close> is taken in the common kind of the two vector kinds
    (\<open>n_to_dot\<close>, \<open>i_to_dot\<close>) and initialises \<open>dot_ni\<close> of kind \<open>R\<close>
    (\<open>dot_to_R\<close>);
  \<^item> the literals \<open>1.0\<close> and \<open>0.0\<close> are doubles, so \<open>1.0 - dot_ni * dot_ni\<close>, the
    product with \<open>eta * eta\<close> (a product of kind \<open>FType\<close>), the difference from
    \<open>1.0\<close> and the comparison \<open>k < 0.0\<close> are taken in the common kind of \<open>R\<close> and
    \<open>double\<close> (\<open>R_to_double\<close>, \<open>F_to_double\<close>), and the initialisation of \<open>k\<close>
    and the arguments \<open>0.0\<close> of the constructor come back to \<open>R\<close>
    (\<open>double_to_R\<close>);
  \<^item> \<open>eta * i\<close> is the overload with the scalar on the left, taken in the common kind
    of \<open>VType1\<close> and \<open>FType\<close> (\<open>i_to_A\<close>, \<open>eta_to_A\<close>), and is converted to
    \<open>R\<close> by the subtraction (\<open>A_to_R\<close>);
  \<^item> \<open>eta * dot_ni\<close>, the square root of \<open>k\<close>, their sum and its product with the
    components of \<open>n\<close> are of kind \<open>R\<close> (\<open>eta_to_R\<close>, \<open>n_to_R\<close>).
  The kinds of \<open>dot(n, i)\<close>, of \<open>eta * i\<close> and of the product with \<open>n\<close> are the ones
  \<open>VectorOpResult\<close> names, which by the spec are the common kinds that the conversions
  of the language yield as well. When \<open>R\<close> is \<open>double\<close> and the index and the vectors
  have that kind, the conversions are all identities.
\<close>

record ('v1, 'v2, 'd, 'f, 'a, 'c, 'e) refract_conversions =
  n_to_dot :: "'v2 \<Rightarrow> 'd"
  i_to_dot :: "'v1 \<Rightarrow> 'd"
  dot_to_R :: "'d \<Rightarrow> 'c"
  R_to_double :: "'c \<Rightarrow> 'e"
  F_to_double :: "'f \<Rightarrow> 'e"
  double_to_R :: "'e \<Rightarrow> 'c"
  i_to_A :: "'v1 \<Rightarrow> 'a"
  eta_to_A :: "'f \<Rightarrow> 'a"
  A_to_R :: "'a \<Rightarrow> 'c"
  eta_to_R :: "'f \<Rightarrow> 'c"
  n_to_R :: "'v2 \<Rightarrow> 'c"



text \<open>
  \<^verbatim>\<open>{
    static_assert(std::is_floating_point<FType>::value,
                  "The type of a refraction index must be floating point");
    R dot_ni = dot(n, i);
    R k = 1.0 - eta * eta * (1.0 - dot_ni * dot_ni);
    if(k < 0.0) {
      return Vector2<R>(0.0, 0.0);
    }else {
      return (eta * i - (eta * dot_ni + std::sqrt(k)) * n);
    }
  }\<close>
  \<open>ftype\<close> is the kind \<open>FType\<close> of the index and \<open>std_sqrt\<close> the library's square
  root at kind \<open>R\<close>. The overload with the scalar on the left multiplies each component
  of the vector by the scalar, the component first.
\<close>

definition refract ::
  "kind \<Rightarrow> ('c \<Rightarrow> 'c)
     \<Rightarrow> ('v1, 'v2, 'd::{times,plus}, 'f::times, 'a::times, 'c::{times,plus,minus},
          'e::{one,zero,minus,times,ord}) refract_conversions
     \<Rightarrow> 'v1 Vector2 \<Rightarrow> 'v2 Vector2 \<Rightarrow> 'f \<Rightarrow> error + 'c Vector2" where
  "refract ftype std_sqrt cv i n eta =
     (if is_floating_point ftype then
        (let dot_ni = dot_to_R cv (dot (Vector2_promote (n_to_dot cv) n)
                                        (Vector2_promote (i_to_dot cv) i));
             k = double_to_R cv
                   (1 - F_to_double cv (eta * eta) * (1 - R_to_double cv (dot_ni * dot_ni)))
         in if R_to_double cv k < 0
            then Inr (Vector2_of (double_to_R cv 0) (double_to_R cv 0))
            else Inr (operator_minus
                   (Vector2_promote (A_to_R cv)
                      (Vector2_of (i_to_A cv (x i) * eta_to_A cv eta)
                                  (i_to_A cv (y i) * eta_to_A cv eta)))
                   (Vector2_of (n_to_R cv (x n) * (eta_to_R cv eta * dot_ni + std_sqrt k))
                               (n_to_R cv (y n) * (eta_to_R cv eta * dot_ni + std_sqrt k)))))
      else Inl (StaticAssertion ''The type of a refraction index must be floating point''))"

section \<open>Basic facts\<close>

lemma Vector2_update_both: "(r :: 'a Vector2)\<lparr>x := a, y := b\<rparr> = \<lparr>x = a, y = b\<rparr>"
  by (cases r) simp

text \<open>Either copy assignment leaves \<open>*this\<close> equal to its source and touches no other object.\<close>

lemma operator_assign_temp_eq: "operator_assign_temp this v h = (this, h(this := v))"
  by (cases v) (simp add: operator_assign_temp_def Let_def Vector2_update_both)

lemma operator_assign_eq: "operator_assign this source h = (this, h(this := h source))"
  by (cases "h source")
    (auto simp add: operator_assign_def Let_def Vector2_update_both fun_eq_iff)

lemma store_of_read: "i < length vs \<Longrightarrow> store_of vs i = vs ! i"
  by (simp add: store_of_def)

lemma store_of_update: "i < length vs \<Longrightarrow> (store_of vs)(i := v) = store_of (vs[i := v])"
  by (auto simp add: store_of_def fun_eq_iff)

lemma Vector2_from_total:
  "Vector2_from (\<lambda>a. Inr (c a)) source = Inr \<lparr>x = c (x source), y = c (y source)\<rparr>"
  by (simp add: Vector2_from_def)

text \<open>
  With the identity for a cast, the converting assignment stores what the copy assignment
  stores.
\<close>

lemma operator_assign_from_Inr:
  "operator_assign_from Inr this r h = Inr (operator_assign_temp this r h)"
  by (cases r)
    (simp add: operator_assign_from_def operator_assign_temp_eq Let_def Vector2_update_both)

lemma operator_assign_from_total:
  "operator_assign_from (\<lambda>a. Inr (c a)) this source h
     = Inr (this, h(this := \<lparr>x = c (x source), y = c (y source)\<rparr>))"
  by (simp add: operator_assign_from_def Let_def Vector2_update_both)

text \<open>The componentwise \<open><=\<close> is a partial order, and \<open><\<close> a strict one.\<close>

lemma operator_le_refl: "operator_le (a :: ('a::order) Vector2) a"
  by (simp add: operator_le_def)

lemma operator_le_trans:
  "operator_le (a :: ('a::order) Vector2) b \<Longrightarrow> operator_le b c \<Longrightarrow> operator_le a c"
  by (auto simp add: operator_le_def)

lemma operator_le_antisym:
  "operator_le (a :: ('a::order) Vector2) b \<Longrightarrow> operator_le b a \<Longrightarrow> operator_eq a b"
  by (auto simp add: operator_le_def operator_eq_def)

lemma operator_lt_irrefl: "\<not> operator_lt (a :: ('a::order) Vector2) a"
  by (simp add: operator_lt_def)

lemma operator_lt_trans:
  "operator_lt (a :: ('a::order) Vector2) b \<Longrightarrow> operator_lt b c \<Longrightarrow> operator_lt a c"
  by (auto simp add: operator_lt_def)

lemma operator_gt_conv: "operator_gt a b = operator_lt b a"
  by (auto simp add: operator_gt_def operator_lt_def)

section \<open>The tests of the repository\<close>

text \<open>
  The tests that come with the header, run on the definitions above. \<open>int\<close> is the
  32-bit signed kind; the \<open>double\<close> literals \<open>1.1\<close> and \<open>2.2\<close> are the values
  \<open>double_1_1\<close> and \<open>double_2_2\<close>.
\<close>

lemma test_DefaultConstructor:
  "x (Vector2_default :: int Vector2) = 0 \<and> y (Vector2_default :: int Vector2) = 0"
  by (simp add: Vector2_default_def)

lemma test_ScalarConstructor:
  "x (Vector2_of (1::int) 2) = 1 \<and> y (Vector2_of (1::int) 2) = 2"
  by (simp add: Vector2_of_def)

lemma test_CopyConstructor:
  "x (Vector2_copy (Vector2_of (1::int) 2)) = x (Vector2_of (1::int) 2)
   \<and> y (Vector2_copy (Vector2_of (1::int) 2)) = y (Vector2_of (1::int) 2)"
  by (simp add: Vector2_copy_def Vector2_of_def)

lemma test_ConvertConstructor1:
  "Vector2_from (static_cast_integral Int32) (Vector2_of (Finite double_1_1) (Finite double_2_2))
     = Inr (Vector2_of 1 2)
   \<and> static_cast_integral Int32 (Finite double_1_1) = Inr 1
   \<and> static_cast_integral Int32 (Finite double_2_2) = Inr 2"
  by (simp add: Vector2_from_def Vector2_of_def trunc_def double_1_1_def double_2_2_def)

lemma test_ConvertConstructor2:
  "Vector2_from double_of_int32 (Vector2_of 5 10) = Inr (Vector2_of (Finite 5) (Finite 10))"
  by (simp add: Vector2_from_def Vector2_of_def double_of_int32_def)

lemma test_Assignment:
  "operator_assign 1 0 (store_of [Vector2_of (1::int) 2, Vector2_default])
     = (1, store_of [Vector2_of 1 2, Vector2_of 1 2])"
  by (simp add: operator_assign_eq store_of_update store_of_read)

lemma test_ConvertAssignment1:
  "operator_assign_from (static_cast_integral Int32) 0
       (Vector2_of (Finite double_1_1) (Finite double_2_2)) (store_of [Vector2_default])
     = Inr (0, store_of [Vector2_of 1 2])"
  by (simp add: operator_assign_from_def Let_def Vector2_update_both store_of_update
      store_of_read Vector2_of_def trunc_def double_1_1_def double_2_2_def)

lemma test_ConvertAssignment2:
  "operator_assign_from double_of_int32 0 (Vector2_of 5 10) h
     = Inr (0, h(0 := Vector2_of (Finite 5) (Finite 10)))"
  by (simp add: operator_assign_from_def Let_def Vector2_update_both Vector2_of_def
      double_of_int32_def)

lemma test_Addition1:
  "operator_plus (Vector2_of (1::int) 2) (Vector2_of 0 0) = Vector2_of 1 2"
  by (simp add: operator_plus_def Vector2_of_def)

lemma test_Addition2:
  "operator_plus (Vector2_of (1::int) 2) (Vector2_of (- 1) (- 2)) = Vector2_of 0 0"
  by (simp add: operator_plus_def Vector2_of_def)

lemma test_Addition3:
  "operator_plus (Vector2_of (1::int) 1) (Vector2_of 2 3) = Vector2_of 3 4"
  by (simp add: operator_plus_def Vector2_of_def)

section \<open>Comparisons are componentwise\<close>

text \<open>
  C7. There are vectors \<open>a\<close> and \<open>b\<close>, namely \<open>a = (1,5)\<close> and \<open>b = (5,1)\<close>, for which
  \<open>a > b\<close>, \<open>a < b\<close> and \<open>a == b\<close> are all false at once, in a signed kind (read at
  \<open>int\<close>) as well as in the unsigned 32-bit kind: the componentwise comparisons are not a
  total order. They are not the lexicographic order either, which would put \<open>a\<close> below
  \<open>b\<close> because \<open>1 < 5\<close> in the first component.
\<close>

theorem comparisons_partial_not_total:
  "\<not> operator_gt (Vector2_of (1::int) 5) (Vector2_of 5 1)
   \<and> \<not> operator_lt (Vector2_of (1::int) 5) (Vector2_of 5 1)
   \<and> \<not> operator_eq (Vector2_of (1::int) 5) (Vector2_of 5 1)
   \<and> \<not> operator_gt (Vector2_of (1::32 word) 5) (Vector2_of 5 1)
   \<and> \<not> operator_lt (Vector2_of (1::32 word) 5) (Vector2_of 5 1)
   \<and> \<not> operator_eq (Vector2_of (1::32 word) 5) (Vector2_of 5 1)
   \<and> (\<exists>a b :: int Vector2. \<not> operator_gt a b \<and> \<not> operator_lt a b \<and> \<not> operator_eq a b)
   \<and> x (Vector2_of (1::int) 5) < x (Vector2_of (5::int) 1)"
proof -
  have ex: "\<not> operator_gt (Vector2_of (1::int) 5) (Vector2_of 5 1)
      \<and> \<not> operator_lt (Vector2_of (1::int) 5) (Vector2_of 5 1)
      \<and> \<not> operator_eq (Vector2_of (1::int) 5) (Vector2_of 5 1)"
    by (simp add: operator_gt_def operator_lt_def operator_eq_def Vector2_of_def)
  have exw: "\<not> operator_gt (Vector2_of (1::32 word) 5) (Vector2_of 5 1)
      \<and> \<not> operator_lt (Vector2_of (1::32 word) 5) (Vector2_of 5 1)
      \<and> \<not> operator_eq (Vector2_of (1::32 word) 5) (Vector2_of 5 1)"
    by (simp add: operator_gt_def operator_lt_def operator_eq_def Vector2_of_def)
  from ex have "\<exists>a b :: int Vector2. \<not> operator_gt a b \<and> \<not> operator_lt a b \<and> \<not> operator_eq a b"
    by blast
  with ex exw show ?thesis
    by (simp add: Vector2_of_def)
qed

section \<open>Negation\<close>

text \<open>
  C10. For every vector \<open>v\<close> (the object at \<open>this\<close>), \<open>-v\<close> returns by value the
  vector \<open>(-x, -y)\<close> and leaves the store, hence \<open>v\<close>, as it was. On an unsigned kind
  of width \<open>w\<close> each negated component is the negation modulo \<open>2 ^ w\<close>; for instance
  \<open>-Vector2<uint32_t>(1, 0)\<close> is \<open>(4294967295, 0)\<close>, and \<open>4294967295\<close> is
  \<open>2 ^ 32 - 1\<close>.
\<close>

theorem operator_neg_fresh_and_wraps:
  "snd (operator_neg this h) = h
   \<and> fst (operator_neg this h) = \<lparr>x = - x (h this), y = - y (h this)\<rparr>
   \<and> uint (x (fst (operator_neg this (hw :: ('w::len) word heap))))
       = (- uint (x (hw this))) mod 2 ^ LENGTH('w)
   \<and> uint (y (fst (operator_neg this hw))) = (- uint (y (hw this))) mod 2 ^ LENGTH('w)
   \<and> operator_neg 0 (store_of [Vector2_of (1 :: 32 word) 0])
       = (Vector2_of 4294967295 0, store_of [Vector2_of 1 0])
   \<and> unat (x (fst (operator_neg 0 (store_of [Vector2_of (1 :: 32 word) 0])))) = 4294967295"
proof -
  have a: "snd (operator_neg this h) = h
      \<and> fst (operator_neg this h) = \<lparr>x = - x (h this), y = - y (h this)\<rparr>"
    by (simp add: operator_neg_def Vector2_of_def)
  have b: "uint (x (fst (operator_neg this hw))) = (- uint (x (hw this))) mod 2 ^ LENGTH('w)
      \<and> uint (y (fst (operator_neg this hw))) = (- uint (y (hw this))) mod 2 ^ LENGTH('w)"
    by (simp add: operator_neg_def Vector2_of_def uint_word_ariths)
  have c: "operator_neg 0 (store_of [Vector2_of (1 :: 32 word) 0])
      = (Vector2_of 4294967295 0, store_of [Vector2_of 1 0])"
    by (simp add: operator_neg_def store_of_read) (simp add: Vector2_of_def)
  have d: "unat (x (fst (operator_neg 0 (store_of [Vector2_of (1 :: 32 word) 0])))) = 4294967295"
    by (simp add: c) (simp add: Vector2_of_def)
  from a b c d show ?thesis
    by blast
qed

section \<open>Compound addition\<close>

lemma narrowed_4294967297: "(4294967297 :: 32 word) = 1"
  by simp

lemma operator_plus_assign_mixed_eq:
  "operator_plus_assign_mixed pl pr conv this w h
      = (case conv (pl (x (h this)) + pr (x w)) of
           Inl e \<Rightarrow> Inl e
         | Inr a \<Rightarrow> (case conv (pl (y (h this)) + pr (y w)) of
                        Inl e \<Rightarrow> Inl e
                      | Inr b \<Rightarrow> Inr (this, h(this := \<lparr>x = a, y = b\<rparr>))))"
  by (simp add: operator_plus_assign_mixed_def operator_assign_from_def operator_plus_mixed_def
      Vector2_of_def Let_def Vector2_update_both split: sum.splits)

text \<open>
  C8, as stated, fails where the two vectors have different kinds: the sum is taken in
  the common kind and cast back on assignment, so \<open>v\<close> need not hold the value of the
  binary sum. \<open>Vec2u(1,2) += Vec2ul(4294967296,0)\<close> has the \<open>uint64_t\<close> sum
  \<open>(4294967297, 2)\<close>, whose first component is no \<open>uint32_t\<close>, and leaves \<open>(1,2)\<close>.
  \<open>Vec2i(1,2) += Vec2d(0.5,0.5)\<close> has the \<open>double\<close> sum \<open>(1.5, 2.5)\<close> (exact) and
  leaves \<open>(1,2)\<close> too.
\<close>

theorem operator_plus_assign_narrows:
  "operator_plus_assign_mixed (ucast :: 32 word \<Rightarrow> 64 word) id (\<lambda>c. Inr (ucast c)) 0
       (Vector2_of 4294967296 0) (store_of [Vector2_of 1 2])
     = Inr (0, store_of [Vector2_of 1 2])
   \<and> operator_plus_mixed (ucast :: 32 word \<Rightarrow> 64 word) id (Vector2_of 1 2)
       (Vector2_of 4294967296 0)
     = Vector2_of 4294967297 2
   \<and> unat (4294967297 :: 64 word) \<noteq> unat (1 :: 32 word)
   \<and> operator_plus_assign_mixed real_of_int id (\<lambda>r. static_cast_integral Int32 (Finite r)) 0
       (Vector2_of (1 / 2) (1 / 2)) (store_of [Vector2_of 1 2])
     = Inr (0, store_of [Vector2_of 1 2])
   \<and> operator_plus_mixed real_of_int id (Vector2_of 1 2) (Vector2_of (1 / 2) (1 / 2))
     = Vector2_of (3 / 2) (5 / 2)"
proof -
  have words: "operator_plus_assign_mixed (ucast :: 32 word \<Rightarrow> 64 word) id (\<lambda>c. Inr (ucast c)) 0
       (Vector2_of 4294967296 0) (store_of [Vector2_of 1 2])
     = Inr (0, store_of [Vector2_of 1 2])
   \<and> operator_plus_mixed (ucast :: 32 word \<Rightarrow> 64 word) id (Vector2_of 1 2)
       (Vector2_of 4294967296 0)
     = Vector2_of 4294967297 2
   \<and> unat (4294967297 :: 64 word) \<noteq> unat (1 :: 32 word)"
    by (simp add: operator_plus_assign_mixed_eq store_of_read store_of_update
        operator_plus_mixed_def)
      (simp add: Vector2_of_def narrowed_4294967297)
  have doubles: "operator_plus_assign_mixed real_of_int id
       (\<lambda>r. static_cast_integral Int32 (Finite r)) 0
       (Vector2_of (1 / 2) (1 / 2)) (store_of [Vector2_of 1 2])
     = Inr (0, store_of [Vector2_of 1 2])
   \<and> operator_plus_mixed real_of_int id (Vector2_of 1 2) (Vector2_of (1 / 2) (1 / 2))
     = Vector2_of (3 / 2) (5 / 2)"
    by (simp add: operator_plus_assign_mixed_eq store_of_read store_of_update
        operator_plus_mixed_def trunc_def)
      (simp add: Vector2_of_def)
  from words doubles show ?thesis
    by blast
qed

text \<open>
  C8, amended. For every vector \<open>v\<close> (the object at \<open>this\<close>) and every vector \<open>w\<close>,
  \<open>v += w\<close> assigns to \<open>v\<close> the binary sum of the old \<open>v\<close> and \<open>w\<close> converted to
  the scalar kind of \<open>v\<close>, and returns the reference \<open>this\<close>; the store changes at
  \<open>this\<close> only.
  \<^item> When \<open>w\<close> has the kind of \<open>v\<close> (also when \<open>w\<close> is \<open>v\<close>) that is exactly the
    sum, component by component.
  \<^item> When the kinds differ, each component of the sum is taken in the common kind and
    cast back by the converting assignment; where a cast is undefined, so is the
    statement.
  \<^item> \<open>Vector2<int>(1,2) += Vector2<int>(2,1)\<close> (the test \<open>AdditionAssignment\<close>) leaves
    \<open>(3,3)\<close> in the left operand and \<open>(2,1)\<close> in the right one.
\<close>

theorem operator_plus_assign_is_sum:
  "operator_plus_assign this rhs h = (this, h(this := operator_plus (h this) (h rhs)))
   \<and> operator_plus_assign this rhs h
       = (this, h(this := \<lparr>x = x (h this) + x (h rhs), y = y (h this) + y (h rhs)\<rparr>))
   \<and> operator_plus_mixed pl pr lhs w = \<lparr>x = pl (x lhs) + pr (x w), y = pl (y lhs) + pr (y w)\<rparr>
   \<and> operator_plus_assign_mixed pl' pr' conv this w h'
       = (case conv (pl' (x (h' this)) + pr' (x w)) of
            Inl e \<Rightarrow> Inl e
          | Inr a \<Rightarrow> (case conv (pl' (y (h' this)) + pr' (y w)) of
                         Inl e \<Rightarrow> Inl e
                       | Inr b \<Rightarrow> Inr (this, h'(this := \<lparr>x = a, y = b\<rparr>))))
   \<and> operator_plus_assign_mixed pl' pr' (\<lambda>c. Inr (cv c)) this w h'
       = Inr (this, h'(this := \<lparr>x = cv (pl' (x (h' this)) + pr' (x w)),
                                 y = cv (pl' (y (h' this)) + pr' (y w))\<rparr>))
   \<and> operator_plus_assign 0 1 (store_of [Vector2_of (1::int) 2, Vector2_of 2 1])
       = (0, store_of [Vector2_of 3 3, Vector2_of 2 1])"
proof -
  have same: "operator_plus_assign this rhs h = (this, h(this := operator_plus (h this) (h rhs)))"
    by (simp add: operator_plus_assign_def operator_assign_temp_eq)
  have pinned: "operator_plus_assign this rhs h
       = (this, h(this := \<lparr>x = x (h this) + x (h rhs), y = y (h this) + y (h rhs)\<rparr>))"
    by (simp add: operator_plus_assign_def operator_assign_temp_eq operator_plus_def
        Vector2_of_def)
  have plus: "operator_plus_mixed pl pr lhs w
       = \<lparr>x = pl (x lhs) + pr (x w), y = pl (y lhs) + pr (y w)\<rparr>"
    by (simp add: operator_plus_mixed_def Vector2_of_def)
  have total: "operator_plus_assign_mixed pl' pr' (\<lambda>c. Inr (cv c)) this w h'
       = Inr (this, h'(this := \<lparr>x = cv (pl' (x (h' this)) + pr' (x w)),
                                 y = cv (pl' (y (h' this)) + pr' (y w))\<rparr>))"
    by (simp add: operator_plus_assign_mixed_eq)
  have "operator_plus_assign 0 1 (store_of [Vector2_of (1::int) 2, Vector2_of 2 1])
       = (0, store_of [Vector2_of 3 3, Vector2_of 2 1])"
    by (simp add: operator_plus_assign_def operator_assign_temp_eq operator_plus_def
        store_of_update store_of_read) (simp add: Vector2_of_def)
  with same pinned plus total operator_plus_assign_mixed_eq [of pl' pr' conv this w h']
  show ?thesis
    by blast
qed

section \<open>The scalar overloads and the compound product and quotient\<close>

text \<open>
  What \<open>*=\<close> and \<open>/=\<close> store, for an operand of any kind: the products or quotients
  of the common kind, cast back by the assignment.
\<close>

lemma operator_mul_assign_Scalar:
  "operator_mul_assign pl pr conv this (Scalar s) h
     = operator_assign_from conv this
         \<lparr>x = pl (x (h this)) * pr s, y = pl (y (h this)) * pr s\<rparr> h"
  by (simp add: operator_mul_assign_def operator_mul_scalar_def Vector2_promote_def
      Vector2_of_def)

lemma operator_mul_assign_Vector:
  "operator_mul_assign pl pr conv this (Vector w) h
     = operator_assign_from conv this
         \<lparr>x = pl (x (h this)) * pr (x w), y = pl (y (h this)) * pr (y w)\<rparr> h"
  by (simp add: operator_mul_assign_def operator_mul_piecewise_def Vector2_promote_def
      Vector2_of_def)

lemma operator_div_assign_Scalar:
  "operator_div_assign dv pl pr conv this (Scalar s) h
     = (case dv (pl (x (h this))) (pr s) of
          None \<Rightarrow> Inl UndefinedBehaviour
        | Some a \<Rightarrow> (case dv (pl (y (h this))) (pr s) of
                       None \<Rightarrow> Inl UndefinedBehaviour
                     | Some b \<Rightarrow> operator_assign_from conv this \<lparr>x = a, y = b\<rparr> h))"
  by (simp add: operator_div_assign_def operator_div_scalar_def Vector2_promote_def
      Vector2_of_def split: option.splits)

lemma operator_div_assign_Vector:
  "operator_div_assign dv pl pr conv this (Vector w) h
     = (case dv (pl (x (h this))) (pr (x w)) of
          None \<Rightarrow> Inl UndefinedBehaviour
        | Some a \<Rightarrow> (case dv (pl (y (h this))) (pr (y w)) of
                       None \<Rightarrow> Inl UndefinedBehaviour
                     | Some b \<Rightarrow> operator_assign_from conv this \<lparr>x = a, y = b\<rparr> h))"
  by (simp add: operator_div_assign_def operator_div_piecewise_def Vector2_promote_def
      Vector2_of_def split: option.splits)

text \<open>
  A scalar of another kind: \<open>Vec2i(3,5) *= 2.5\<close> multiplies in \<open>double\<close>, where the
  products \<open>7.5\<close> and \<open>12.5\<close> are exact, and the assignment truncates them to
  \<open>(7,12)\<close>. \<open>Vec2u(7,9) /= 2\<close> divides in \<open>uint32_t\<close> and leaves \<open>(3,4)\<close>.
\<close>

lemma operator_mul_assign_double_scalar:
  "operator_mul_assign real_of_int id (\<lambda>r. static_cast_integral Int32 (Finite r)) 0
      (Scalar (5 / 2)) (store_of [Vector2_of 3 5])
     = Inr (0, store_of [Vector2_of 7 12])"
  by (simp add: operator_mul_assign_Scalar operator_assign_from_def Let_def Vector2_update_both
      store_of_read store_of_update trunc_def) (simp add: Vector2_of_def)

lemma operator_div_assign_same_kind_scalar:
  "operator_div_assign unsigned_div id id Inr 0 (Scalar 2) (store_of [Vector2_of (7 :: 32 word) 9])
     = Inr (0, store_of [Vector2_of 3 4])"
  by (simp add: operator_div_assign_Scalar operator_assign_from_Inr operator_assign_temp_eq
      store_of_read store_of_update unsigned_div_def) (simp add: Vector2_of_def)

text \<open>
  C5, at the failing input. \<open>v *= w\<close> with \<open>v = (1,2)\<close> and the vector \<open>w = (3,4)\<close>
  of the same kind is not rejected: the statement compiles, runs the piecewise product
  and leaves \<open>(3,8)\<close> in \<open>v\<close>. Likewise \<open>v /= w\<close> with \<open>v = (6,8)\<close> leaves the
  piecewise quotient \<open>(2,2)\<close>.
\<close>

theorem operator_mul_assign_takes_vector:
  "operator_mul_assign id id Inr 0 (Vector (Vector2_of 3 4)) (store_of [Vector2_of (1 :: 32 word) 2])
     = Inr (0, store_of [Vector2_of 3 8])
   \<and> operator_div_assign unsigned_div id id Inr 0 (Vector (Vector2_of 3 4))
       (store_of [Vector2_of (6 :: 32 word) 8])
     = Inr (0, store_of [Vector2_of 2 2])"
  by (simp add: operator_mul_assign_Vector operator_div_assign_Vector operator_assign_from_Inr
      operator_assign_temp_eq store_of_read store_of_update unsigned_div_def)
    (simp add: Vector2_of_def)

text \<open>
  C6. Whenever one of the scalar overloads (\<open>vector * scalar\<close>, \<open>scalar * vector\<close>,
  \<open>vector / scalar\<close>) is instantiated with a vector kind in the place of the scalar,
  the \<open>IsVector\<close> static assertion fails with its message ("Multiplication not defined
  for the given types", "Division not defined for the given types") and the
  instantiation yields no vector at all. A vector times a vector is the piecewise
  product only by the overload for two vectors, which is the one the expression
  resolves to.
\<close>

theorem scalar_overloads_reject_vector_operand:
  assumes "IsVector rhs"
  shows "operator_mul_scalar lhs rhs
           = Inl (StaticAssertion ''Multiplication not defined for the given types'')
       \<and> operator_mul_scalar_left rhs lhs
           = Inl (StaticAssertion ''Multiplication not defined for the given types'')
       \<and> operator_div_scalar dv lhs rhs
           = Inl (StaticAssertion ''Division not defined for the given types'')
       \<and> operator_mul_scalar lhs rhs \<noteq> Inr r
       \<and> operator_mul_scalar_left rhs lhs \<noteq> Inr r
       \<and> operator_div_scalar dv lhs rhs \<noteq> Inr r
       \<and> (\<exists>w. rhs = Vector w \<and> operator_mul lhs rhs = Inr (operator_mul_piecewise lhs w))"
proof -
  from assms obtain w where w: "rhs = Vector w"
    by (cases rhs) simp_all
  then have "operator_mul lhs rhs = Inr (operator_mul_piecewise lhs w)"
    by simp
  with w assms show ?thesis
    by (simp add: operator_mul_scalar_def operator_mul_scalar_left_def operator_div_scalar_def)
qed

theorem scalar_overloads_reject_vector_operand_witness:
  "IsVector (Vector (Vector2_of (3 :: 32 word) 4))
   \<and> operator_mul_scalar (Vector2_of 1 2) (Vector (Vector2_of (3 :: 32 word) 4))
       = Inl (StaticAssertion ''Multiplication not defined for the given types'')
   \<and> operator_div_scalar unsigned_div (Vector2_of 1 2) (Vector (Vector2_of (3 :: 32 word) 4))
       = Inl (StaticAssertion ''Division not defined for the given types'')
   \<and> operator_mul (Vector2_of 1 2) (Vector (Vector2_of (3 :: 32 word) 4))
       = Inr (Vector2_of 3 8)"
proof -
  have v: "IsVector (Vector (Vector2_of (3 :: 32 word) 4))"
    by simp
  have "operator_mul (Vector2_of 1 2) (Vector (Vector2_of (3 :: 32 word) 4))
       = Inr (Vector2_of 3 8)"
    by (simp add: operator_mul_piecewise_def Vector2_of_def)
  with v scalar_overloads_reject_vector_operand [OF v, of "Vector2_of 1 2" unsigned_div]
  show ?thesis
    by simp
qed

section \<open>Reflection\<close>

lemma common_type_floating:
  "is_floating_point (common_type a b) = (is_floating_point a \<or> is_floating_point b)"
  by (cases a; cases b) auto

lemma common_type_Integral:
  "\<exists>c. common_type (Integral a) (Integral b) = Integral c"
  by simp

text \<open>
  In any kind, whatever the laws of its arithmetic: the two inputs converted, and each
  component of the normal multiplied by \<open>2 * dot(i, n)\<close> and subtracted.
\<close>

lemma reflect_total:
  fixes cl :: "'l \<Rightarrow> 'c::{minus,times,numeral}" and cr :: "'r \<Rightarrow> 'c"
  shows "reflect (\<lambda>a. Inr (cl a)) (\<lambda>a. Inr (cr a)) vec normal
     = Inr \<lparr>x = cl (x vec) - cr (x normal) * (2 * dot (Vector2_of (cl (x vec)) (cl (y vec)))
                                       (Vector2_of (cr (x normal)) (cr (y normal)))),
            y = cl (y vec) - cr (y normal) * (2 * dot (Vector2_of (cl (x vec)) (cl (y vec)))
                                       (Vector2_of (cr (x normal)) (cr (y normal))))\<rparr>"
  by (simp add: reflect_def Vector2_from_total operator_mul_scalar_left_def operator_minus_def
      dot_def Vector2_of_def)

text \<open>In an integer kind the product commutes: the formula as it is usually written.\<close>

lemma reflect_total_ring:
  fixes cl :: "'l \<Rightarrow> 'c::comm_ring_1" and cr :: "'r \<Rightarrow> 'c"
  shows "reflect (\<lambda>a. Inr (cl a)) (\<lambda>a. Inr (cr a)) vec normal
     = Inr \<lparr>x = cl (x vec) - 2 * dot (Vector2_of (cl (x vec)) (cl (y vec)))
                                       (Vector2_of (cr (x normal)) (cr (y normal))) * cr (x normal),
            y = cl (y vec) - 2 * dot (Vector2_of (cl (x vec)) (cl (y vec)))
                                       (Vector2_of (cr (x normal)) (cr (y normal))) * cr (y normal)\<rparr>"
  by (simp add: reflect_total mult.commute)

text \<open>
  C3, as stated, fails: for two vectors of the 32-bit signed kind the result kind of
  \<open>reflect\<close> is that integer kind, not a floating one, and the reflection of \<open>(1,2)\<close>
  at the normal \<open>(0,1)\<close> is computed in it as \<open>(1,-2)\<close>.
\<close>

theorem reflect_of_integers_is_integral:
  "reflect_Result (Integral Int32) (Integral Int32) = Integral Int32
   \<and> \<not> is_floating_point (reflect_Result (Integral Int32) (Integral Int32))
   \<and> reflect Inr Inr (Vector2_of (1::int) 2) (Vector2_of (0::int) 1) = Inr (Vector2_of 1 (- 2))"
  by (simp add: reflect_Result_def VectorOpResult_def reflect_def Vector2_from_def
      operator_mul_scalar_left_def operator_minus_def dot_def Vector2_of_def)

text \<open>
  C3, amended. For every pair of vectors \<open>vec\<close> and \<open>normal\<close>, \<open>reflect\<close> converts
  both to the promoted result kind \<open>VectorOpResult<rtype,ltype>\<close> and returns
  \<open>incident - 2 * dot(incident, normal) * normal\<close> computed in that kind: in every
  kind each component is \<open>i - n * (2 * dot(i, n))\<close>, and in the integer kinds, where
  the product commutes, it is \<open>i - 2 * dot(i, n) * n\<close> as written. The result kind is
  a floating-point kind exactly when one of the two input kinds is; for two integer
  vectors it is an integer kind.
\<close>

theorem reflect_in_promoted_kind:
  fixes cl :: "'l \<Rightarrow> 'c::{minus,times,numeral}" and cr :: "'r \<Rightarrow> 'c"
    and dl :: "'l \<Rightarrow> 'd::comm_ring_1" and dr :: "'r \<Rightarrow> 'd"
  shows "reflect_Result rtype ltype = VectorOpResult rtype ltype
   \<and> is_floating_point (reflect_Result rtype ltype)
       = (is_floating_point rtype \<or> is_floating_point ltype)
   \<and> (\<exists>k. reflect_Result (Integral ka) (Integral kb) = Integral k)
   \<and> reflect (\<lambda>a. Inr (cl a)) (\<lambda>a. Inr (cr a)) vec normal
       = Inr \<lparr>x = cl (x vec) - cr (x normal) * (2 * dot (Vector2_of (cl (x vec)) (cl (y vec)))
                                      (Vector2_of (cr (x normal)) (cr (y normal)))),
              y = cl (y vec) - cr (y normal) * (2 * dot (Vector2_of (cl (x vec)) (cl (y vec)))
                                      (Vector2_of (cr (x normal)) (cr (y normal))))\<rparr>
   \<and> reflect (\<lambda>a. Inr (dl a)) (\<lambda>a. Inr (dr a)) vec normal
       = Inr \<lparr>x = dl (x vec) - 2 * dot (Vector2_of (dl (x vec)) (dl (y vec)))
                                      (Vector2_of (dr (x normal)) (dr (y normal))) * dr (x normal),
              y = dl (y vec) - 2 * dot (Vector2_of (dl (x vec)) (dl (y vec)))
                                      (Vector2_of (dr (x normal)) (dr (y normal))) * dr (y normal)\<rparr>"
  using common_type_floating [of rtype ltype] common_type_Integral [of ka kb]
    reflect_total [of cl cr vec normal] reflect_total_ring [of dl dr vec normal]
  by (simp add: reflect_Result_def VectorOpResult_def)

section \<open>Length of a vector of an integer kind\<close>

text \<open>Where the sum of the squares does not wrap, the code's length is the promoted one.\<close>

lemma length_vec_no_wrap:
  fixes v :: "'w::len word Vector2"
  assumes "unat (x v) * unat (x v) + unat (y v) * unat (y v) < 2 ^ LENGTH('w)"
  shows "length_vec std_sqrt v = length_promoted_spec std_sqrt v"
proof -
  have "unat (x v * x v + y v * y v) = unat (x v) * unat (x v) + unat (y v) * unat (y v)"
    using assms by (simp add: unat_word_ariths mod_simps)
  then show ?thesis
    by (simp add: length_vec_def length_promoted_spec_def)
qed

text \<open>
  C2, at the failing input. For the \<open>Vec2u\<close> vector \<open>(65536, 0)\<close> the code takes the
  square root of the wrapped sum \<open>0\<close>, whatever \<open>std::sqrt\<close> is, where the promoted
  computation takes it of \<open>4294967296\<close>: with the square root of the reals (exact on
  both arguments) the code's length is \<open>0\<close> and the promoted one \<open>65536\<close>. The same
  happens for the \<open>Vec2ul\<close> vector \<open>(4294967296, 0)\<close>.
\<close>

theorem length_wraps_before_promotion:
  "length_vec std_sqrt (Vector2_of (65536 :: 32 word) 0) = std_sqrt 0
   \<and> length_promoted_spec std_sqrt (Vector2_of (65536 :: 32 word) 0) = std_sqrt 4294967296
   \<and> length_vec sqrt (Vector2_of (65536 :: 32 word) 0) = 0
   \<and> length_promoted_spec sqrt (Vector2_of (65536 :: 32 word) 0) = 65536
   \<and> length_vec sqrt (Vector2_of (4294967296 :: 64 word) 0) = 0
   \<and> length_promoted_spec sqrt (Vector2_of (4294967296 :: 64 word) 0) = 4294967296"
proof -
  have s1: "sqrt 4294967296 = 65536"
    by (rule real_sqrt_unique) simp_all
  have s2: "sqrt 18446744073709551616 = 4294967296"
    by (rule real_sqrt_unique) simp_all
  show ?thesis
    by (simp add: length_vec_def length_promoted_spec_def Vector2_of_def s1 s2)
qed

section \<open>Normalisation\<close>

lemma length_vec_is_template:
  "length_vec std_sqrt v = length_template std_sqrt (\<lambda>w. real (unat w)) v"
  by (simp add: length_vec_def length_template_def)

lemma normalize_vec_eq:
  "normalize_vec std_sqrt to_double dv to_RType source =
    (case dv (to_double (x source))
            (std_sqrt (to_double (x source * x source + y source * y source))) of
       None \<Rightarrow> Inl UndefinedBehaviour
     | Some a \<Rightarrow>
        (case dv (to_double (y source))
                (std_sqrt (to_double (x source * x source + y source * y source))) of
           None \<Rightarrow> Inl UndefinedBehaviour
         | Some b \<Rightarrow>
            (case to_RType a of
               Inl e \<Rightarrow> Inl e
             | Inr a' \<Rightarrow> (case to_RType b of
                             Inl e \<Rightarrow> Inl e
                           | Inr b' \<Rightarrow> Inr \<lparr>x = a', y = b'\<rparr>))))"
  by (simp add: normalize_vec_def operator_div_scalar_def length_template_def
      Vector2_promote_def Vector2_from_def Vector2_of_def split: option.splits sum.splits)

lemma normalize_float_eq:
  "normalize_float sqrtf (\<lambda>a b. Some (d a b)) f =
    Inr \<lparr>x = d (x f) (sqrtf (x f * x f + y f * y f)),
         y = d (y f) (sqrtf (x f * x f + y f * y f))\<rparr>"
  by (simp add: normalize_float_def operator_div_scalar_def length_float_def Vector2_of_def)

lemma sqrt_25: "sqrt 25 = 5"
  by (rule real_sqrt_unique) simp_all

lemma sqrt_16: "sqrt 16 = 4"
  by (rule real_sqrt_unique) simp_all

text \<open>
  C4. For every vector \<open>v\<close>, \<open>normalize(v)\<close> is \<open>v\<close> divided componentwise by
  \<open>length(v)\<close>: each component converted to \<open>double\<close> and divided by the square root
  of the cast sum of the squares (taken in the kind of \<open>v\<close>), and for a
  \<open>Vector2<float>\<close> each component divided in \<open>float\<close> by the \<open>float\<close> length. The
  result kind is \<open>float\<close> for a \<open>Vector2<float>\<close> and \<open>double\<close> otherwise; the
  quotient of any kind and \<open>double\<close> is a \<open>double\<close> already. With the quotient and the
  square root of the reals, \<open>Vec2u(3,4)\<close> gives \<open>(3/5, 4/5)\<close> and \<open>Vec2u(0,4)\<close> gives
  \<open>(0,1)\<close>.
\<close>

theorem normalize_divides_by_length:
  "normalize_vec std_sqrt to_double (\<lambda>a b. Some (d a b)) Inr source =
     Inr \<lparr>x = d (to_double (x source))
                (std_sqrt (to_double (x source * x source + y source * y source))),
          y = d (to_double (y source))
                (std_sqrt (to_double (x source * x source + y source * y source)))\<rparr>
   \<and> normalize_vec std_sqrt to_double dv to_RType source =
       (case dv (to_double (x source))
               (std_sqrt (to_double (x source * x source + y source * y source))) of
          None \<Rightarrow> Inl UndefinedBehaviour
        | Some a \<Rightarrow>
           (case dv (to_double (y source))
                   (std_sqrt (to_double (x source * x source + y source * y source))) of
              None \<Rightarrow> Inl UndefinedBehaviour
            | Some b \<Rightarrow>
               (case to_RType a of
                  Inl e \<Rightarrow> Inl e
                | Inr a' \<Rightarrow> (case to_RType b of
                                Inl e \<Rightarrow> Inl e
                              | Inr b' \<Rightarrow> Inr \<lparr>x = a', y = b'\<rparr>))))
   \<and> normalize_float sqrtf (\<lambda>a b. Some (df a b)) f =
       Inr \<lparr>x = df (x f) (sqrtf (x f * x f + y f * y f)),
            y = df (y f) (sqrtf (x f * x f + y f * y f))\<rparr>
   \<and> normalize_Result k = (if k = Float then Float else Double)
   \<and> VectorOpResult Double k = Double
   \<and> normalize_vec sqrt (\<lambda>w. real (unat w)) (\<lambda>a b. Some (a / b)) Inr (Vector2_of (3 :: 32 word) 4)
       = Inr (Vector2_of (3 / 5) (4 / 5))
   \<and> normalize_vec sqrt (\<lambda>w. real (unat w)) (\<lambda>a b. Some (a / b)) Inr (Vector2_of (0 :: 32 word) 4)
       = Inr (Vector2_of 0 1)"
proof -
  have total: "normalize_vec std_sqrt to_double (\<lambda>a b. Some (d a b)) Inr source =
     Inr \<lparr>x = d (to_double (x source))
                (std_sqrt (to_double (x source * x source + y source * y source))),
          y = d (to_double (y source))
                (std_sqrt (to_double (x source * x source + y source * y source)))\<rparr>"
    by (simp add: normalize_vec_eq)
  have kinds: "normalize_Result k = (if k = Float then Float else Double)
      \<and> VectorOpResult Double k = Double"
    by (cases k) (simp_all add: VectorOpResult_def)
  have ex1: "normalize_vec sqrt (\<lambda>w. real (unat w)) (\<lambda>a b. Some (a / b)) Inr
      (Vector2_of (3 :: 32 word) 4) = Inr (Vector2_of (3 / 5) (4 / 5))"
    by (simp add: normalize_vec_eq Vector2_of_def sqrt_25)
  have ex2: "normalize_vec sqrt (\<lambda>w. real (unat w)) (\<lambda>a b. Some (a / b)) Inr
      (Vector2_of (0 :: 32 word) 4) = Inr (Vector2_of 0 1)"
    by (simp add: normalize_vec_eq Vector2_of_def sqrt_16)
  from total kinds ex1 ex2 normalize_vec_eq [of std_sqrt to_double dv to_RType source]
    normalize_float_eq [of sqrtf df f]
  show ?thesis
    by blast
qed

section \<open>Refraction\<close>


lemma refract_rejects_other_index:
  "\<not> is_floating_point ftype \<Longrightarrow> refract ftype std_sqrt cv i n eta
     = Inl (StaticAssertion ''The type of a refraction index must be floating point'')"
  by (simp add: refract_def)







section \<open>Conversion from a floating kind to an integer kind\<close>

lemma trunc_bounds:
  "\<bar>real_of_int (trunc r)\<bar> \<le> \<bar>r\<bar> \<and> \<bar>r\<bar> < \<bar>real_of_int (trunc r)\<bar> + 1
   \<and> 0 \<le> real_of_int (trunc r) * r"
proof (cases "r < 0")
  case True
  have c: "real_of_int \<lceil>r\<rceil> - 1 < r \<and> r \<le> real_of_int \<lceil>r\<rceil>"
    by linarith
  have "\<lceil>r\<rceil> \<le> 0"
    using True by (simp add: ceiling_le_iff)
  then have n: "real_of_int \<lceil>r\<rceil> \<le> 0"
    by simp
  have "0 \<le> real_of_int \<lceil>r\<rceil> * r"
    using n True by (simp add: mult_nonpos_nonpos)
  with c n True show ?thesis
    by (simp add: trunc_def)
next
  case False
  have c: "real_of_int \<lfloor>r\<rfloor> \<le> r \<and> r < real_of_int \<lfloor>r\<rfloor> + 1"
    by linarith
  have "0 \<le> \<lfloor>r\<rfloor>"
    using False by simp
  then have n: "0 \<le> real_of_int \<lfloor>r\<rfloor>"
    by simp
  have "0 \<le> real_of_int \<lfloor>r\<rfloor> * r"
    using n False by simp
  with c n False show ?thesis
    by (simp add: trunc_def)
qed

lemma trunc_of_int: "trunc (real_of_int n) = n"
  by (simp add: trunc_def)

lemma trunc_literals:
  "trunc double_1_1 = 1" "trunc double_2_2 = 2" "trunc double_2_7 = 2" "round double_2_7 = 3"
  by (simp_all add: trunc_def double_1_1_def double_2_2_def double_2_7_def round_def)

lemma double_literals_nearest:
  "\<bar>double_1_1 - 11 / 10\<bar> \<le> 1 / 2 ^ 53" "\<bar>double_2_2 - 22 / 10\<bar> \<le> 1 / 2 ^ 52"
  "\<bar>double_2_7 - 27 / 10\<bar> \<le> 1 / 2 ^ 52"
  by (simp_all add: double_1_1_def double_2_2_def double_2_7_def)

lemma static_cast_integral_out_of_range:
  "trunc r < int_min k \<or> int_max k < trunc r
     \<Longrightarrow> static_cast_integral k (Finite r) = Inl UndefinedBehaviour"
  by auto

text \<open>
  C9. For every vector of a floating kind whose components are finite and truncate to
  values of the integer kind \<open>k\<close> (elsewhere the conversion of the language is
  undefined), the converting constructor and the converting assignment to a vector of
  kind \<open>k\<close> give each component truncated toward zero: the result \<open>t\<close> of a component
  \<open>r\<close> has the sign of \<open>r\<close> and \<open>\<bar>t\<bar> \<le> \<bar>r\<bar> < \<bar>t\<bar> + 1\<close>. It is not rounded: the
  \<open>double\<close> \<open>2.7\<close> becomes \<open>2\<close>, where rounding gives \<open>3\<close>.
\<close>

theorem floating_to_integral_truncates:
  assumes "int_min k \<le> trunc a" and "trunc a \<le> int_max k"
    and "int_min k \<le> trunc b" and "trunc b \<le> int_max k"
  shows "Vector2_from (static_cast_integral k) \<lparr>x = Finite a, y = Finite b\<rparr>
           = Inr \<lparr>x = trunc a, y = trunc b\<rparr>
       \<and> operator_assign_from (static_cast_integral k) this \<lparr>x = Finite a, y = Finite b\<rparr> h
           = Inr (this, h(this := \<lparr>x = trunc a, y = trunc b\<rparr>))
       \<and> \<bar>real_of_int (trunc a)\<bar> \<le> \<bar>a\<bar> \<and> \<bar>a\<bar> < \<bar>real_of_int (trunc a)\<bar> + 1
       \<and> 0 \<le> real_of_int (trunc a) * a
       \<and> \<bar>real_of_int (trunc b)\<bar> \<le> \<bar>b\<bar> \<and> \<bar>b\<bar> < \<bar>real_of_int (trunc b)\<bar> + 1
       \<and> 0 \<le> real_of_int (trunc b) * b
       \<and> static_cast_integral Int32 (Finite double_2_7) = Inr 2
       \<and> round double_2_7 = 3"
proof -
  have ctor: "Vector2_from (static_cast_integral k) \<lparr>x = Finite a, y = Finite b\<rparr>
      = Inr \<lparr>x = trunc a, y = trunc b\<rparr>"
    using assms by (simp add: Vector2_from_def)
  have asg: "operator_assign_from (static_cast_integral k) this \<lparr>x = Finite a, y = Finite b\<rparr> h
      = Inr (this, h(this := \<lparr>x = trunc a, y = trunc b\<rparr>))"
    using assms by (simp add: operator_assign_from_def Let_def Vector2_update_both)
  have lit: "static_cast_integral Int32 (Finite double_2_7) = Inr 2 \<and> round double_2_7 = 3"
    by (simp add: trunc_literals)
  from ctor asg lit trunc_bounds [of a] trunc_bounds [of b] show ?thesis
    by blast
qed

theorem floating_to_integral_truncates_witness:
  "int_min Int32 \<le> trunc double_1_1 \<and> trunc double_1_1 \<le> int_max Int32
   \<and> int_min Int32 \<le> trunc double_2_2 \<and> trunc double_2_2 \<le> int_max Int32
   \<and> Vector2_from (static_cast_integral Int32) \<lparr>x = Finite double_1_1, y = Finite double_2_2\<rparr>
       = Inr \<lparr>x = 1, y = 2\<rparr>
   \<and> operator_assign_from (static_cast_integral Int32) 0
         \<lparr>x = Finite double_1_1, y = Finite double_2_2\<rparr> (store_of [Vector2_default])
       = Inr (0, store_of [\<lparr>x = 1, y = 2\<rparr>])"
proof -
  have r: "int_min Int32 \<le> trunc double_1_1" "trunc double_1_1 \<le> int_max Int32"
    "int_min Int32 \<le> trunc double_2_2" "trunc double_2_2 \<le> int_max Int32"
    by (simp_all add: trunc_literals)
  from r floating_to_integral_truncates [OF r, of 0 "store_of [Vector2_default]"]
  show ?thesis
    by (simp add: trunc_literals store_of_update)
qed

end
